theory Spec2Isabelle
  imports Complex_Main
begin

section \<open>Values, models and exceptions\<close>

text \<open>
  The data service of the REST API (\<^verbatim>\<open>api/services/data_service.py\<close>) and the routes that
  call it (\<^verbatim>\<open>api/routes/*.py\<close>) are embedded as pure functions. Python's \<^verbatim>\<open>float\<close> is
  read as an exact rational and \<^verbatim>\<open>datetime\<close> as a number of seconds. Every field of a record carries a short prefix of its class, since the
  Python classes share field names.
\<close>

type_synonym datetime = int
datatype date = Date (year: nat) (month: nat) (day: nat)

text \<open>\<^verbatim>\<open>schemas.py\<close>: the pydantic response models.\<close>

record ChannelResponse =
  cr_channel_name :: string
  cr_channel_type :: string
  cr_total_posts :: int
  cr_avg_views :: rat
  cr_channel_key :: string
  cr_first_post_date :: "datetime option"
  cr_last_post_date :: "datetime option"
  cr_image_percentage :: rat
  cr_activity_status :: string

record ChannelActivity =
  ca_date :: date
  ca_message_count :: int
  ca_avg_views :: rat
  ca_avg_forwards :: rat

record MessageResponse =
  mr_message_id :: int
  mr_message_text :: string
  mr_message_date :: datetime
  mr_channel_name :: string
  mr_view_count :: int
  mr_forward_count :: int
  mr_has_image :: bool
  mr_message_length :: int
  mr_engagement_score :: rat

record TopProduct =
  tp_product_name :: string
  tp_mention_count :: int
  tp_channels :: "string list"
  tp_avg_views :: rat

record VisualContentStats =
  vs_total_images :: int
  vs_images_by_channel :: "(string \<times> int) list"
  vs_images_by_category :: "(string \<times> int) list"
  vs_avg_detections_per_image :: rat
  vs_top_detected_objects :: "(string \<times> int) list"

record EngagementMetrics =
  em_total_messages :: int
  em_total_views :: int
  em_total_forwards :: int
  em_avg_views_per_message :: rat
  em_avg_forwards_per_message :: rat
  em_top_performing_messages :: "MessageResponse list"

datatype model =
    MChannelResponse ChannelResponse
  | MChannelActivity ChannelActivity
  | MMessageResponse MessageResponse
  | MTopProduct TopProduct
  | MVisualContentStats VisualContentStats
  | MEngagementMetrics EngagementMetrics

text \<open>
  A Python value as the service handles it: what \<^verbatim>\<open>json.loads\<close> can produce, or a
  model object. \<open>PStrOf m\<close> is the string \<^verbatim>\<open>str(m)\<close> of a model object, kept
  symbolic (pydantic renders it as \<^verbatim>\<open>field=value ...\<close>, never empty).
\<close>

datatype pyval =
    PNone
  | PBool bool
  | PInt int
  | PFloat rat
  | PStr string
  | PStrOf model
  | PList "pyval list"
  | PDict "(string \<times> pyval) list"
  | PModel model

text \<open>Python's truth value, as tested by \<^verbatim>\<open>if cached:\<close> and \<^verbatim>\<open>if not channel:\<close>.\<close>

fun truthy :: "pyval \<Rightarrow> bool" where
  "truthy PNone = False"
| "truthy (PBool b) = b"
| "truthy (PInt i) = (i \<noteq> 0)"
| "truthy (PFloat r) = (r \<noteq> 0)"
| "truthy (PStr s) = (s \<noteq> [])"
| "truthy (PStrOf m) = True"
| "truthy (PList xs) = (xs \<noteq> [])"
| "truthy (PDict kvs) = (kvs \<noteq> [])"
| "truthy (PModel m) = True"

text \<open>
  Exceptions. \<open>Str_of e\<close> is the text \<^verbatim>\<open>str(e)\<close> that the routes put in the detail of
  the error they raise in place of \<open>e\<close>.
\<close>

datatype exn =
    HTTPException int detail
  | DatabaseError
  | RedisError
  | JSONDecodeError
  | ValidationError
  | AttributeError
  | TypeError
  | ZeroDivisionError
and detail = Detail string | Str_of exn

fun status_code :: "exn \<Rightarrow> int" where
  "status_code (HTTPException c d) = c"
| "status_code e = 500"

section \<open>Strings\<close>

text \<open>\<^verbatim>\<open>str.lower()\<close> on the ASCII letters; every other character is kept.\<close>

definition lower_char :: "char \<Rightarrow> char" where
  "lower_char c = (let n = (of_char c :: nat) in if 65 \<le> n \<and> n \<le> 90 then char_of (n + 32) else c)"

definition lower :: "string \<Rightarrow> string" where
  "lower s = map lower_char s"

fun startswith :: "string \<Rightarrow> string \<Rightarrow> bool" where
  "startswith s [] = True"
| "startswith [] (k # ks) = False"
| "startswith (c # cs) (k # ks) = (c = k \<and> startswith cs ks)"

text \<open>\<^verbatim>\<open>keyword in message_text\<close>: the keyword occurs as a contiguous substring.\<close>

fun py_in :: "string \<Rightarrow> string \<Rightarrow> bool" where
  "py_in keyword [] = (keyword = [])"
| "py_in keyword (c # cs) = (startswith (c # cs) keyword \<or> py_in keyword cs)"

text \<open>\<^verbatim>\<open>str\<close> of an integer, a date, a bool and an optional value, as the f-strings render them.\<close>

fun str_nat :: "nat \<Rightarrow> string" where
  "str_nat n = (if n < 10 then [char_of (48 + n)] else str_nat (n div 10) @ [char_of (48 + n mod 10)])"

definition str_int :: "int \<Rightarrow> string" where
  "str_int i = (if i < 0 then CHR ''-'' # str_nat (nat (- i)) else str_nat (nat i))"

definition zero_pad :: "nat \<Rightarrow> string \<Rightarrow> string" where
  "zero_pad w s = replicate (w - length s) CHR ''0'' @ s"

definition str_date :: "date \<Rightarrow> string" where
  "str_date d = zero_pad 4 (str_nat (year d)) @ ''-'' @ zero_pad 2 (str_nat (month d)) @ ''-''
                @ zero_pad 2 (str_nat (day d))"

definition date_le :: "date \<Rightarrow> date \<Rightarrow> bool" where
  "date_le a b = (year a < year b \<or> (year a = year b \<and> (month a < month b
                    \<or> (month a = month b \<and> day a \<le> day b))))"

definition str_bool :: "bool \<Rightarrow> string" where
  "str_bool b = (if b then ''True'' else ''False'')"

definition str_opt :: "('a \<Rightarrow> string) \<Rightarrow> 'a option \<Rightarrow> string" where
  "str_opt f x = (case x of None \<Rightarrow> ''None'' | Some v \<Rightarrow> f v)"

text \<open>
  The pattern match of SQL \<^verbatim>\<open>LIKE\<close>: \<^verbatim>\<open>%\<close> stands for any run of characters,
  \<^verbatim>\<open>_\<close> for one character, and a backslash takes the next character literally.
  The server rejects a pattern that ends in a lone backslash; the patterns
  \<^verbatim>\<open>%query%\<close> of the search never end in one, and the match is \<open>False\<close> there.
  \<^verbatim>\<open>ILIKE\<close> compares without regard to case.
\<close>

fun like_match :: "string \<Rightarrow> string \<Rightarrow> bool" where
  "like_match [] t = (t = [])"
| "like_match (p # ps) t =
     (if p = CHR ''%'' then
        (like_match ps t \<or> (case t of [] \<Rightarrow> False | c # cs \<Rightarrow> like_match (p # ps) cs))
      else if p = CHR ''_'' then
        (case t of [] \<Rightarrow> False | c # cs \<Rightarrow> like_match ps cs)
      else if p = CHR 0x5C then
        (case ps of
           [] \<Rightarrow> False
         | q # qs \<Rightarrow> (case t of [] \<Rightarrow> False | c # cs \<Rightarrow> c = q \<and> like_match qs cs))
      else
        (case t of [] \<Rightarrow> False | c # cs \<Rightarrow> c = p \<and> like_match ps cs))"

definition ilike :: "string \<Rightarrow> string \<Rightarrow> bool" where
  "ilike t pattern = like_match (lower pattern) (lower t)"

section \<open>Python helpers\<close>

text \<open>\<^verbatim>\<open>xs[:n]\<close>: a negative bound counts from the end.\<close>

definition py_take :: "int \<Rightarrow> 'a list \<Rightarrow> 'a list" where
  "py_take n xs = (if 0 \<le> n then take (nat n) xs else take (length xs - nat (- n)) xs)"

text \<open>\<^verbatim>\<open>x or 0\<close> on an optional number.\<close>

definition or_zero :: "'a::zero option \<Rightarrow> 'a" where
  "or_zero x = (case x of None \<Rightarrow> 0 | Some v \<Rightarrow> v)"

text \<open>
  A dict keeps its keys in insertion order: an association list in which a new key goes
  to the end and an old key keeps its place.
\<close>

fun dict_get :: "('k \<times> 'v) list \<Rightarrow> 'k \<Rightarrow> 'v \<Rightarrow> 'v" where
  "dict_get [] k dflt = dflt"
| "dict_get ((k', v) # kvs) k dflt = (if k' = k then v else dict_get kvs k dflt)"

fun dict_set :: "('k \<times> 'v) list \<Rightarrow> 'k \<Rightarrow> 'v \<Rightarrow> ('k \<times> 'v) list" where
  "dict_set [] k v = [(k, v)]"
| "dict_set ((k', v') # kvs) k v = (if k' = k then (k, v) # kvs else (k', v') # dict_set kvs k v)"

fun dict_has :: "('k \<times> 'v) list \<Rightarrow> 'k \<Rightarrow> bool" where
  "dict_has [] k = False"
| "dict_has ((k', v) # kvs) k = (k' = k \<or> dict_has kvs k)"

text \<open>
  A set of strings is a list without repetitions; \<^verbatim>\<open>add\<close> keeps an element that is
  already there. Python does not fix the order in which a set is listed; here it is
  the order of insertion.
\<close>

definition set_add :: "'a list \<Rightarrow> 'a \<Rightarrow> 'a list" where
  "set_add s x = (if x \<in> set s then s else s @ [x])"


text \<open>Running a constructor that may raise over a list: the first exception ends the loop.\<close>

fun collect :: "('a \<Rightarrow> exn + 'b) \<Rightarrow> 'a list \<Rightarrow> exn + 'b list" where
  "collect f [] = Inr []"
| "collect f (x # xs) =
     (case f x of
        Inl e \<Rightarrow> Inl e
      | Inr y \<Rightarrow> (case collect f xs of Inl e \<Rightarrow> Inl e | Inr ys \<Rightarrow> Inr (y # ys)))"

text \<open>
  \<^verbatim>\<open>sorted(items, key=..., reverse=True)\<close> and SQL's \<^verbatim>\<open>ORDER BY ... DESC\<close>: descending
  by the key, rows with equal keys in their former order.
\<close>

definition sort_desc :: "('a \<Rightarrow> int) \<Rightarrow> 'a list \<Rightarrow> 'a list" where
  "sort_desc f xs = sort_key (\<lambda>x. - f x) xs"

section \<open>The cache-aside layer\<close>

text \<open>
  The serialized text held by the key-value store is either JSON text, represented by the
  value it decodes to, or some other string, on which \<^verbatim>\<open>json.loads\<close> raises.
  JSON text is never empty.
\<close>

datatype raw = JsonText pyval | NotJson string

fun raw_truthy :: "raw \<Rightarrow> bool" where
  "raw_truthy (JsonText v) = True"
| "raw_truthy (NotJson s) = (s \<noteq> [])"

fun json_loads :: "raw \<Rightarrow> exn + pyval" where
  "json_loads (JsonText v) = Inr v"
| "json_loads (NotJson s) = Inl JSONDecodeError"

text \<open>
  \<^verbatim>\<open>json.dumps(data, default=str)\<close>: an object the encoder does not know (here a
  pydantic model) is replaced by its \<^verbatim>\<open>str\<close>.
\<close>

fun jsonable :: "pyval \<Rightarrow> pyval" where
  "jsonable (PModel m) = PStrOf m"
| "jsonable (PList xs) = PList (map jsonable xs)"
| "jsonable (PDict kvs) = PDict (map (map_prod id jsonable) kvs)"
| "jsonable v = v"

definition json_dumps :: "pyval \<Rightarrow> raw" where
  "json_dumps data = JsonText (jsonable data)"

text \<open>
  The external key-value store (\<^verbatim>\<open>redis.asyncio.Redis\<close>), through the two calls the
  service makes: \<^verbatim>\<open>GET key\<close> and \<^verbatim>\<open>SETEX key ttl value\<close>. An entry carries the time
  at which it expires; \<open>r_fails\<close> says that every call on the client raises.
\<close>

record redis =
  r_fails :: bool
  r_store :: "string \<Rightarrow> (raw \<times> nat) option"

definition redis_get :: "redis \<Rightarrow> nat \<Rightarrow> string \<Rightarrow> exn + raw option" where
  "redis_get r now key =
     (if r_fails r then Inl RedisError
      else case r_store r key of
             None \<Rightarrow> Inr None
           | Some (data, expires) \<Rightarrow> if now < expires then Inr (Some data) else Inr None)"

definition redis_setex :: "redis \<Rightarrow> nat \<Rightarrow> string \<Rightarrow> nat \<Rightarrow> raw \<Rightarrow> exn + redis" where
  "redis_setex r now key ttl data =
     (if r_fails r then Inl RedisError
      else Inr (r\<lparr>r_store := (r_store r)(key \<mapsto> (data, now + ttl))\<rparr>))"

text \<open>
  The relational session (\<^verbatim>\<open>sqlalchemy.orm.Session\<close>) over the warehouse, an
  external collaborator. The three tables the ORM queries read are lists of rows, with every
  column but the primary key nullable as \<^verbatim>\<open>models.py\<close> declares them; the result of
  each textual SQL statement is what the server returns for its parameters.
  \<open>db_fails\<close> says that every query on the session raises.
\<close>

record Channel =
  ch_channel_key :: string
  ch_channel_name :: "string option"
  ch_channel_type :: "string option"
  ch_first_post_date :: "datetime option"
  ch_last_post_date :: "datetime option"
  ch_total_posts :: "int option"
  ch_avg_views :: "rat option"
  ch_image_percentage :: "rat option"
  ch_activity_status :: "string option"

record TelegramMessage =
  tm_message_key :: string
  tm_message_id :: "int option"
  tm_channel_key :: "string option"
  tm_date_key :: "string option"
  tm_message_text :: "string option"
  tm_message_length :: "int option"
  tm_view_count :: "int option"
  tm_forward_count :: "int option"
  tm_has_image_flag :: "bool option"
  tm_engagement_score :: "rat option"
  tm_loaded_at :: "datetime option"

record DateDimension =
  dd_date_key :: string
  dd_full_date :: "date option"

record database =
  db_fails :: bool
  dim_channels :: "Channel list"
  fct_messages :: "TelegramMessage list"
  dim_dates :: "DateDimension list"
  sql_channel_activity :: "string \<Rightarrow> int \<Rightarrow> (date \<times> int option \<times> rat option \<times> rat option) list"
  sql_recent_messages :: "int \<Rightarrow> (string option \<times> string \<times> int option) list"
  sql_images_by_channel :: "(string \<times> int) list"
  sql_images_by_category :: "(string \<times> int) list"
  sql_top_objects :: "(string \<times> int) list"
  sql_avg_detections :: "rat option"
  sql_engagement_totals :: "int \<Rightarrow> int option \<times> int option \<times> int option \<times> rat option \<times> rat option"
  sql_top_messages :: "int \<Rightarrow> (int \<times> string \<times> string \<times> int \<times> int \<times> bool \<times> int \<times> rat \<times> datetime) list"
  sql_daily_trend :: "string \<Rightarrow> int \<Rightarrow> (date \<times> int option) list"

text \<open>\<^verbatim>\<open>DataService.__init__\<close>: the session, the optional cache client, and the TTL.\<close>

record DataService =
  db :: database
  redis :: "redis option"
  cache_ttl :: nat

definition DataService_init :: "database \<Rightarrow> redis option \<Rightarrow> DataService" where
  "DataService_init d redis_client = \<lparr>db = d, redis = redis_client, cache_ttl = 300\<rparr>"

text \<open>
  \<^verbatim>\<open>get_cached\<close>: \<open>PNone\<close> without a client; inside the \<^verbatim>\<open>try\<close>, the value decoded from
  the data when the data is truthy; \<open>PNone\<close> after any exception and in every other case.
\<close>

definition get_cached :: "DataService \<Rightarrow> nat \<Rightarrow> string \<Rightarrow> pyval" where
  "get_cached S now key =
     (case redis S of
        None \<Rightarrow> PNone
      | Some r \<Rightarrow>
          (case redis_get r now key of
             Inl e \<Rightarrow> PNone
           | Inr None \<Rightarrow> PNone
           | Inr (Some data) \<Rightarrow>
               if raw_truthy data
               then (case json_loads data of Inl e \<Rightarrow> PNone | Inr v \<Rightarrow> v)
               else PNone))"

text \<open>
  \<^verbatim>\<open>set_cached\<close>: \<open>False\<close> without a client; \<open>True\<close> after \<^verbatim>\<open>setex\<close> with the TTL of
  the service; \<open>False\<close> after any exception. The client is updated in place.
\<close>

definition set_cached :: "DataService \<Rightarrow> nat \<Rightarrow> string \<Rightarrow> pyval \<Rightarrow> bool \<times> DataService" where
  "set_cached S now key data =
     (case redis S of
        None \<Rightarrow> (False, S)
      | Some r \<Rightarrow>
          (case redis_setex r now key (cache_ttl S) (json_dumps data) of
             Inl e \<Rightarrow> (False, S)
           | Inr r' \<Rightarrow> (True, S\<lparr>redis := Some r'\<rparr>)))"

section \<open>The data service\<close>

text \<open>A query on the session either raises or returns its rows.\<close>

definition session_query :: "database \<Rightarrow> 'a \<Rightarrow> exn + 'a" where
  "session_query d rows = (if db_fails d then Inl DatabaseError else Inr rows)"

text \<open>\<^verbatim>\<open>ORDER BY column DESC\<close> on a nullable column: the server lists the NULLs first.\<close>

definition order_by_desc :: "('a \<Rightarrow> int option) \<Rightarrow> 'a list \<Rightarrow> 'a list" where
  "order_by_desc f rows =
     filter (\<lambda>r. f r = None) rows @ sort_desc (\<lambda>r. the (f r)) (filter (\<lambda>r. f r \<noteq> None) rows)"

text \<open>
  \<^verbatim>\<open>ChannelResponse(channel_key=channel.channel_key, ...)\<close>: pydantic rejects a NULL in a
  field that is not \<^verbatim>\<open>Optional\<close>.
\<close>

definition ChannelResponse_of :: "Channel \<Rightarrow> exn + ChannelResponse" where
  "ChannelResponse_of channel =
     (if ch_channel_name channel = None \<or> ch_channel_type channel = None
         \<or> ch_total_posts channel = None \<or> ch_avg_views channel = None
         \<or> ch_image_percentage channel = None \<or> ch_activity_status channel = None
      then Inl ValidationError
      else Inr \<lparr>cr_channel_name = the (ch_channel_name channel),
                cr_channel_type = the (ch_channel_type channel),
                cr_total_posts = the (ch_total_posts channel),
                cr_avg_views = the (ch_avg_views channel),
                cr_channel_key = ch_channel_key channel,
                cr_first_post_date = ch_first_post_date channel,
                cr_last_post_date = ch_last_post_date channel,
                cr_image_percentage = the (ch_image_percentage channel),
                cr_activity_status = the (ch_activity_status channel)\<rparr>)"

definition get_all_channels :: "DataService \<Rightarrow> nat \<Rightarrow> (exn + pyval) \<times> DataService" where
  "get_all_channels S now =
     (let cache_key = ''channels:all'';
          cached = get_cached S now cache_key
      in if truthy cached then (Inr cached, S)
         else (case session_query (db S) (order_by_desc ch_total_posts (dim_channels (db S))) of
                 Inl e \<Rightarrow> (Inl e, S)
               | Inr channels \<Rightarrow>
                   (case collect ChannelResponse_of channels of
                      Inl e \<Rightarrow> (Inl e, S)
                    | Inr rs \<Rightarrow>
                        let result = PList (map (\<lambda>r. PModel (MChannelResponse r)) rs);
                            (ok, S') = set_cached S now cache_key result
                        in (Inr result, S'))))"

definition get_channel_by_name :: "DataService \<Rightarrow> nat \<Rightarrow> string \<Rightarrow> (exn + pyval) \<times> DataService" where
  "get_channel_by_name S now channel_name =
     (let cache_key = ''channel:'' @ channel_name;
          cached = get_cached S now cache_key
      in if truthy cached then (Inr cached, S)
         else (case session_query (db S)
                      (find (\<lambda>c. ch_channel_name c = Some channel_name) (dim_channels (db S))) of
                 Inl e \<Rightarrow> (Inl e, S)
               | Inr None \<Rightarrow> (Inr PNone, S)
               | Inr (Some channel) \<Rightarrow>
                   (case ChannelResponse_of channel of
                      Inl e \<Rightarrow> (Inl e, S)
                    | Inr r \<Rightarrow>
                        let result = PModel (MChannelResponse r);
                            (ok, S') = set_cached S now cache_key result
                        in (Inr result, S'))))"

definition ChannelActivity_of :: "date \<times> int option \<times> rat option \<times> rat option \<Rightarrow> ChannelActivity" where
  "ChannelActivity_of row =
     (case row of (d, mc, av, af) \<Rightarrow>
        \<lparr>ca_date = d, ca_message_count = or_zero mc, ca_avg_views = or_zero av,
         ca_avg_forwards = or_zero af\<rparr>)"

definition get_channel_activity ::
  "DataService \<Rightarrow> nat \<Rightarrow> string \<Rightarrow> int \<Rightarrow> (exn + pyval) \<times> DataService" where
  "get_channel_activity S now channel_name days =
     (let cache_key = ''channel_activity:'' @ channel_name @ '':'' @ str_int days @ ''d'';
          cached = get_cached S now cache_key
      in if truthy cached then (Inr cached, S)
         else (case get_channel_by_name S now channel_name of
                 (Inl e, S1) \<Rightarrow> (Inl e, S1)
               | (Inr channel, S1) \<Rightarrow>
                   if \<not> truthy channel then (Inr (PList []), S1)
                   else (case session_query (db S1) (sql_channel_activity (db S1) channel_name days) of
                           Inl e \<Rightarrow> (Inl e, S1)
                         | Inr rows \<Rightarrow>
                             let activity = PList (map (\<lambda>row. PModel (MChannelActivity (ChannelActivity_of row))) rows);
                                 (ok, S2) = set_cached S1 now cache_key activity
                             in (Inr activity, S2))))"

subsection \<open>Message search\<close>

text \<open>The two inner joins of the search: a message with its channel and its date row.\<close>

definition joined_messages :: "database \<Rightarrow> (TelegramMessage \<times> Channel \<times> DateDimension) list" where
  "joined_messages d =
     [(m, c, dd). m \<leftarrow> fct_messages d, c \<leftarrow> dim_channels d, tm_channel_key m = Some (ch_channel_key c),
                  dd \<leftarrow> dim_dates d, tm_date_key m = Some (dd_date_key dd)]"

definition text_matches :: "string \<Rightarrow> TelegramMessage \<Rightarrow> bool" where
  "text_matches query m =
     (case tm_message_text m of None \<Rightarrow> False | Some t \<Rightarrow> ilike t (''%'' @ query @ ''%''))"

text \<open>
  The filters are added as the source adds them: the channel when the name is truthy,
  the dates when given, the image flag when it is not \<^verbatim>\<open>None\<close>, and the view count
  when \<^verbatim>\<open>min_views\<close> is truthy.
\<close>

definition search_query ::
  "database \<Rightarrow> string \<Rightarrow> string option \<Rightarrow> date option \<Rightarrow> date option \<Rightarrow> bool option
     \<Rightarrow> int option \<Rightarrow> TelegramMessage list" where
  "search_query d query channel_name start_date end_date has_images min_views =
     (let q0 = filter (\<lambda>(m, c, dd). text_matches query m) (joined_messages d);
          q1 = (if channel_name \<noteq> None \<and> channel_name \<noteq> Some []
                then filter (\<lambda>(m, c, dd). ch_channel_name c = channel_name) q0 else q0);
          q2 = (case start_date of
                  None \<Rightarrow> q1
                | Some s \<Rightarrow> filter (\<lambda>(m, c, dd). case dd_full_date dd of None \<Rightarrow> False
                                                     | Some f \<Rightarrow> date_le s f) q1);
          q3 = (case end_date of
                  None \<Rightarrow> q2
                | Some e \<Rightarrow> filter (\<lambda>(m, c, dd). case dd_full_date dd of None \<Rightarrow> False
                                                     | Some f \<Rightarrow> date_le f e) q2);
          q4 = (case has_images of
                  None \<Rightarrow> q3
                | Some h \<Rightarrow> filter (\<lambda>(m, c, dd). tm_has_image_flag m = Some h) q3);
          q5 = (if min_views \<noteq> None \<and> min_views \<noteq> Some 0
                then filter (\<lambda>(m, c, dd). case tm_view_count m of None \<Rightarrow> False
                                             | Some v \<Rightarrow> the min_views \<le> v) q4 else q4)
      in map fst q5)"

text \<open>
  \<^verbatim>\<open>.order_by(desc(view_count)).limit(limit).all()\<close>; the server rejects a negative
  \<^verbatim>\<open>LIMIT\<close>.
\<close>

definition execute_search :: "database \<Rightarrow> TelegramMessage list \<Rightarrow> int \<Rightarrow> exn + TelegramMessage list" where
  "execute_search d rows limit =
     (if db_fails d \<or> limit < 0 then Inl DatabaseError
      else Inr (take (nat limit) (order_by_desc tm_view_count rows)))"

definition MessageResponse_of :: "database \<Rightarrow> TelegramMessage \<Rightarrow> exn + MessageResponse" where
  "MessageResponse_of d msg =
     (case session_query d (find (\<lambda>c. Some (ch_channel_key c) = tm_channel_key msg) (dim_channels d)) of
        Inl e \<Rightarrow> Inl e
      | Inr channel \<Rightarrow>
          (case tm_message_text msg of
             None \<Rightarrow> Inl TypeError
           | Some t \<Rightarrow>
               let message_text = (if length t > 500 then take 500 t @ ''...'' else t);
                   channel_name = (case channel of Some c \<Rightarrow> ch_channel_name c | None \<Rightarrow> Some ''Unknown'')
               in if tm_message_id msg = None \<or> tm_loaded_at msg = None \<or> channel_name = None
                     \<or> tm_view_count msg = None \<or> tm_forward_count msg = None
                     \<or> tm_has_image_flag msg = None \<or> tm_message_length msg = None
                     \<or> tm_engagement_score msg = None
                  then Inl ValidationError
                  else Inr \<lparr>mr_message_id = the (tm_message_id msg),
                            mr_message_text = message_text,
                            mr_message_date = the (tm_loaded_at msg),
                            mr_channel_name = the channel_name,
                            mr_view_count = the (tm_view_count msg),
                            mr_forward_count = the (tm_forward_count msg),
                            mr_has_image = the (tm_has_image_flag msg),
                            mr_message_length = the (tm_message_length msg),
                            mr_engagement_score = the (tm_engagement_score msg)\<rparr>))"

definition search_key ::
  "string \<Rightarrow> string option \<Rightarrow> date option \<Rightarrow> date option \<Rightarrow> bool option \<Rightarrow> int option \<Rightarrow> int \<Rightarrow> string" where
  "search_key query channel_name start_date end_date has_images min_views limit =
     ''search:'' @ query @ '':'' @ str_opt id channel_name @ '':'' @ str_opt str_date start_date
       @ '':'' @ str_opt str_date end_date @ '':'' @ str_opt str_bool has_images
       @ '':'' @ str_opt str_int min_views @ '':'' @ str_int limit"

definition search_messages ::
  "DataService \<Rightarrow> nat \<Rightarrow> string \<Rightarrow> string option \<Rightarrow> date option \<Rightarrow> date option \<Rightarrow> bool option
     \<Rightarrow> int option \<Rightarrow> int \<Rightarrow> (exn + pyval) \<times> DataService" where
  "search_messages S now query channel_name start_date end_date has_images min_views limit =
     (let cache_key = search_key query channel_name start_date end_date has_images min_views limit;
          cached = get_cached S now cache_key
      in if truthy cached then (Inr cached, S)
         else (case execute_search (db S)
                      (search_query (db S) query channel_name start_date end_date has_images min_views)
                      limit of
                 Inl e \<Rightarrow> (Inl e, S)
               | Inr messages \<Rightarrow>
                   (case collect (MessageResponse_of (db S)) messages of
                      Inl e \<Rightarrow> (Inl e, S)
                    | Inr rs \<Rightarrow>
                        let result = PList (map (\<lambda>r. PModel (MMessageResponse r)) rs);
                            (ok, S') = set_cached S now cache_key result
                        in (Inr result, S'))))"

subsection \<open>Top products\<close>

definition product_keywords :: "(string \<times> string list) list" where
  "product_keywords =
     [(''Paracetamol'', [''paracetamol'', ''panadol'', ''acetaminophen'']),
      (''Amoxicillin'', [''amoxicillin'', ''amoxil'', ''amoxycillin'']),
      (''Vitamin C'', [''vitamin c'', ''ascorbic acid'']),
      (''Antibiotics'', [''antibiotic'', ''antibiotics'', ''amoxicillin'', ''azithromycin'']),
      (''Pain Relief'', [''pain'', ''relief'', ''analgesic'']),
      (''Cough Syrup'', [''cough'', ''syrup'', ''expectorant'']),
      (''Antiseptic'', [''antiseptic'', ''disinfectant'', ''dettol'']),
      (''Skin Cream'', [''cream'', ''ointment'', ''lotion'', ''moisturizer'']),
      (''Supplements'', [''supplement'', ''vitamin'', ''mineral'']),
      (''Medical Equipment'', [''mask'', ''gloves'', ''thermometer''])]"

text \<open>The three dicts that the scan fills.\<close>

record mentions =
  product_counts :: "(string \<times> int) list"
  product_channels :: "(string \<times> string list) list"
  product_views :: "(string \<times> int list) list"

definition no_mentions :: mentions where
  "no_mentions = \<lparr>product_counts = [], product_channels = [], product_views = []\<rparr>"

text \<open>The body of \<^verbatim>\<open>if keyword in message_text:\<close>, up to the \<^verbatim>\<open>break\<close>.\<close>

definition record_mention :: "string \<Rightarrow> string \<Rightarrow> int \<Rightarrow> mentions \<Rightarrow> mentions" where
  "record_mention product channel_name views st =
     (let counts = dict_set (product_counts st) product (dict_get (product_counts st) product 0 + 1);
          chans0 = (if \<not> dict_has (product_channels st) product
                    then dict_set (product_channels st) product [] else product_channels st);
          chans = dict_set chans0 product (set_add (dict_get chans0 product []) channel_name);
          views0 = (if \<not> dict_has (product_views st) product
                    then dict_set (product_views st) product [] else product_views st);
          views1 = dict_set views0 product (dict_get views0 product [] @ [views])
      in \<lparr>product_counts = counts, product_channels = chans, product_views = views1\<rparr>)"

text \<open>\<^verbatim>\<open>for keyword in keywords\<close>: the first keyword found records the mention and breaks.\<close>

fun scan_keywords :: "string \<Rightarrow> string list \<Rightarrow> string \<Rightarrow> string \<Rightarrow> int \<Rightarrow> mentions \<Rightarrow> mentions" where
  "scan_keywords product [] message_text channel_name views st = st"
| "scan_keywords product (keyword # keywords) message_text channel_name views st =
     (if py_in keyword message_text then record_mention product channel_name views st
      else scan_keywords product keywords message_text channel_name views st)"

text \<open>\<^verbatim>\<open>for product, keywords in product_keywords.items()\<close>.\<close>

fun scan_products ::
  "(string \<times> string list) list \<Rightarrow> string \<Rightarrow> string \<Rightarrow> int \<Rightarrow> mentions \<Rightarrow> mentions" where
  "scan_products [] message_text channel_name views st = st"
| "scan_products ((product, keywords) # rest) message_text channel_name views st =
     scan_products rest message_text channel_name views
       (scan_keywords product keywords message_text channel_name views st)"

text \<open>\<^verbatim>\<open>for row in result\<close>; \<^verbatim>\<open>row[0].lower()\<close> raises on a NULL text.\<close>

fun scan_rows :: "(string option \<times> string \<times> int option) list \<Rightarrow> mentions \<Rightarrow> exn + mentions" where
  "scan_rows [] st = Inr st"
| "scan_rows ((text, channel_name, views) # rows) st =
     (case text of
        None \<Rightarrow> Inl AttributeError
      | Some t \<Rightarrow> scan_rows rows (scan_products product_keywords (lower t) channel_name (or_zero views) st))"

definition TopProduct_of :: "mentions \<Rightarrow> string \<times> int \<Rightarrow> TopProduct" where
  "TopProduct_of st item =
     (case item of (product, count) \<Rightarrow>
        \<lparr>tp_product_name = product,
         tp_mention_count = count,
         tp_channels = py_take 5 (dict_get (product_channels st) product []),
         tp_avg_views = of_int (sum_list (dict_get (product_views st) product [0]))
                          / of_int (max (int (length (dict_get (product_views st) product [1]))) 1)\<rparr>)"

definition top_products_of :: "mentions \<Rightarrow> int \<Rightarrow> TopProduct list" where
  "top_products_of st limit = map (TopProduct_of st) (py_take limit (sort_desc snd (product_counts st)))"

definition get_top_products :: "DataService \<Rightarrow> nat \<Rightarrow> int \<Rightarrow> int \<Rightarrow> (exn + pyval) \<times> DataService" where
  "get_top_products S now limit days =
     (let cache_key = ''top_products:'' @ str_int limit @ '':'' @ str_int days @ ''d'';
          cached = get_cached S now cache_key
      in if truthy cached then (Inr cached, S)
         else (case session_query (db S) (sql_recent_messages (db S) days) of
                 Inl e \<Rightarrow> (Inl e, S)
               | Inr result \<Rightarrow>
                   (case scan_rows result no_mentions of
                      Inl e \<Rightarrow> (Inl e, S)
                    | Inr st \<Rightarrow>
                        let top_products = PList (map (\<lambda>p. PModel (MTopProduct p)) (top_products_of st limit));
                            (ok, S') = set_cached S now cache_key top_products
                        in (Inr top_products, S'))))"

subsection \<open>Visual content statistics and engagement metrics\<close>




section \<open>The routes\<close>

text \<open>
  Each route builds a \<open>DataService\<close> on the session and the cache client of the request
  and returns its response or the exception it raises, with the cache client as the
  request leaves it. The two shapes of handler at the end of a route:
  \<^verbatim>\<open>except Exception as e: raise HTTPException(500, str(e))\<close> alone, which also catches an
  \<^verbatim>\<open>HTTPException\<close> raised in the body, and the same after
  \<^verbatim>\<open>except HTTPException: raise\<close>.
\<close>

definition except_exception :: "exn + 'a \<Rightarrow> exn + 'a" where
  "except_exception r = (case r of Inl e \<Rightarrow> Inl (HTTPException 500 (Str_of e)) | Inr v \<Rightarrow> Inr v)"

definition except_http_then_exception :: "exn + 'a \<Rightarrow> exn + 'a" where
  "except_http_then_exception r =
     (case r of
        Inl (HTTPException c d) \<Rightarrow> Inl (HTTPException c d)
      | Inl e \<Rightarrow> Inl (HTTPException 500 (Str_of e))
      | Inr v \<Rightarrow> Inr v)"

subsection \<open>\<^verbatim>\<open>routes/reports.py\<close>\<close>

definition trend_response :: "string \<Rightarrow> int \<Rightarrow> (date \<times> int option) list \<Rightarrow> pyval" where
  "trend_response metric days result =
     PDict [(''metric'', PStr metric), (''days'', PInt days),
            (''data'', PList (map (\<lambda>row. PDict [(''date'', PStr (str_date (fst row))),
                                                   (''value'', PInt (or_zero (snd row)))]) result))]"

definition get_daily_trends :: "database \<Rightarrow> string \<Rightarrow> int \<Rightarrow> exn + pyval" where
  "get_daily_trends d metric days =
     except_exception
       (case (if metric = ''messages'' then Inr (sql_daily_trend d ''messages'' days)
              else if metric = ''views'' then Inr (sql_daily_trend d ''views'' days)
              else if metric = ''forwards'' then Inr (sql_daily_trend d ''forwards'' days)
              else if metric = ''images'' then Inr (sql_daily_trend d ''images'' days)
              else Inl (HTTPException 400 (Detail ''Invalid metric''))) of
          Inl e \<Rightarrow> Inl e
        | Inr query \<Rightarrow>
            (case session_query d query of
               Inl e \<Rightarrow> Inl e
             | Inr result \<Rightarrow> Inr (trend_response metric days result)))"

subsection \<open>\<^verbatim>\<open>routes/channels.py\<close>\<close>

text \<open>
  Reading a field of a channel, as in \<^verbatim>\<open>c.total_posts\<close>: only a \<open>ChannelResponse\<close>
  object has the fields; a value that came back from the cache is a string or a list
  and raises.
\<close>

definition attr_channel :: "pyval \<Rightarrow> exn + ChannelResponse" where
  "attr_channel v = (case v of PModel (MChannelResponse c) \<Rightarrow> Inr c | _ \<Rightarrow> Inl AttributeError)"

text \<open>\<^verbatim>\<open>[c for c in filtered_channels if P(c)]\<close> where \<open>P\<close> reads fields of \<open>c\<close>.\<close>

definition filter_channels :: "(ChannelResponse \<Rightarrow> bool) \<Rightarrow> pyval \<Rightarrow> exn + pyval" where
  "filter_channels P v =
     (case v of
        PList xs \<Rightarrow>
          (case collect attr_channel xs of
             Inl e \<Rightarrow> Inl e
           | Inr cs \<Rightarrow> Inr (PList (map (\<lambda>c. PModel (MChannelResponse c)) (filter P cs))))
      | PStr s \<Rightarrow> if s = [] then Inr (PList []) else Inl AttributeError
      | PStrOf m \<Rightarrow> Inl AttributeError
      | PDict kvs \<Rightarrow> if kvs = [] then Inr (PList []) else Inl AttributeError
      | _ \<Rightarrow> Inl TypeError)"

definition route_get_all_channels ::
  "database \<Rightarrow> redis option \<Rightarrow> nat \<Rightarrow> string option \<Rightarrow> int option \<Rightarrow> bool
     \<Rightarrow> (exn + pyval) \<times> redis option" where
  "route_get_all_channels d redis_client now channel_type min_posts active_only =
     (let data_service = DataService_init d redis_client
      in case get_all_channels data_service now of
           (Inl e, S') \<Rightarrow> (except_exception (Inl e), redis S')
         | (Inr channels, S') \<Rightarrow>
             (except_exception
                (case (if channel_type \<noteq> None \<and> channel_type \<noteq> Some []
                       then filter_channels (\<lambda>c. cr_channel_type c = the channel_type) channels
                       else Inr channels) of
                   Inl e \<Rightarrow> Inl e
                 | Inr f1 \<Rightarrow>
                     (case (if min_posts \<noteq> None \<and> min_posts \<noteq> Some 0
                            then filter_channels (\<lambda>c. the min_posts \<le> cr_total_posts c) f1
                            else Inr f1) of
                        Inl e \<Rightarrow> Inl e
                      | Inr f2 \<Rightarrow>
                          if active_only
                          then filter_channels (\<lambda>c. cr_activity_status c = ''Active'') f2
                          else Inr f2)),
              redis S'))"

text \<open>Python's true division raises on a zero divisor.\<close>

definition py_truediv :: "rat \<Rightarrow> rat \<Rightarrow> exn + rat" where
  "py_truediv a b = (if b = 0 then Inl ZeroDivisionError else Inr (a / b))"

text \<open>The \<^verbatim>\<open>metrics\<close> dict of \<^verbatim>\<open>compare_channel\<close>, entry by entry as the source writes it.\<close>

definition comparison_metrics :: "ChannelResponse \<Rightarrow> ChannelResponse \<Rightarrow> exn + pyval" where
  "comparison_metrics channel1 channel2 =
     (case py_truediv (of_int (cr_total_posts channel1 - cr_total_posts channel2))
                      (of_int (max (cr_total_posts channel2) 1)) of
        Inl e \<Rightarrow> Inl e
      | Inr q1 \<Rightarrow>
          (case py_truediv (cr_avg_views channel1 - cr_avg_views channel2)
                           (max (cr_avg_views channel2) 1) of
             Inl e \<Rightarrow> Inl e
           | Inr q2 \<Rightarrow>
               Inr (PDict
                 [(''total_posts'', PDict
                     [(''channel1'', PInt (cr_total_posts channel1)),
                      (''channel2'', PInt (cr_total_posts channel2)),
                      (''difference'', PInt (cr_total_posts channel1 - cr_total_posts channel2)),
                      (''percentage_difference'', PFloat (q1 * 100))]),
                  (''avg_views'', PDict
                     [(''channel1'', PFloat (cr_avg_views channel1)),
                      (''channel2'', PFloat (cr_avg_views channel2)),
                      (''difference'', PFloat (cr_avg_views channel1 - cr_avg_views channel2)),
                      (''percentage_difference'', PFloat (q2 * 100))]),
                  (''image_percentage'', PDict
                     [(''channel1'', PFloat (cr_image_percentage channel1)),
                      (''channel2'', PFloat (cr_image_percentage channel2)),
                      (''difference'', PFloat (cr_image_percentage channel1 - cr_image_percentage channel2))])])))"

definition not_found :: "string \<Rightarrow> exn" where
  "not_found channel_name =
     HTTPException 404 (Detail (''Channel '' @ [CHR 0x27] @ channel_name @ [CHR 0x27] @ '' not found''))"

definition compare_channel ::
  "database \<Rightarrow> redis option \<Rightarrow> nat \<Rightarrow> string \<Rightarrow> string \<Rightarrow> (exn + pyval) \<times> redis option" where
  "compare_channel d redis_client now channel_name compare_with =
     (let data_service = DataService_init d redis_client
      in case get_channel_by_name data_service now channel_name of
           (Inl e, S1) \<Rightarrow> (except_http_then_exception (Inl e), redis S1)
         | (Inr channel1, S1) \<Rightarrow>
         (case get_channel_by_name S1 now compare_with of
           (Inl e, S2) \<Rightarrow> (except_http_then_exception (Inl e), redis S2)
         | (Inr channel2, S2) \<Rightarrow>
         if \<not> truthy channel1 then (except_http_then_exception (Inl (not_found channel_name)), redis S2)
         else if \<not> truthy channel2 then (except_http_then_exception (Inl (not_found compare_with)), redis S2)
         else
         (case get_channel_activity S2 now channel_name 30 of
           (Inl e, S3) \<Rightarrow> (except_http_then_exception (Inl e), redis S3)
         | (Inr activity1, S3) \<Rightarrow>
         (case get_channel_activity S3 now compare_with 30 of
           (Inl e, S4) \<Rightarrow> (except_http_then_exception (Inl e), redis S4)
         | (Inr activity2, S4) \<Rightarrow>
             (except_http_then_exception
                (case attr_channel channel1 of
                   Inl e \<Rightarrow> Inl e
                 | Inr c1 \<Rightarrow>
                     (case attr_channel channel2 of
                        Inl e \<Rightarrow> Inl e
                      | Inr c2 \<Rightarrow>
                          (case comparison_metrics c1 c2 of
                             Inl e \<Rightarrow> Inl e
                           | Inr metrics \<Rightarrow>
                               Inr (PDict [(''channel1'', PStr channel_name),
                                           (''channel2'', PStr compare_with),
                                           (''metrics'', metrics),
                                           (''activity_period'', PStr ''Last 30 days'')])))),
              redis S4)))))"

subsection \<open>\<^verbatim>\<open>routes/messages.py\<close>\<close>

record SearchResponse =
  sr_query :: string
  sr_total_results :: int
  sr_messages :: "MessageResponse list"
  sr_page :: int
  sr_total_pages :: int

definition message_model :: "pyval \<Rightarrow> exn + MessageResponse" where
  "message_model v = (case v of PModel (MMessageResponse m) \<Rightarrow> Inr m | _ \<Rightarrow> Inl ValidationError)"

text \<open>
  \<^verbatim>\<open>SearchResponse(query=query, total_results=len(messages), messages=messages, page=page,
  total_pages=max(1, (len(messages) + limit - 1) // limit))\<close>: \<^verbatim>\<open>len\<close> raises on a value
  without a length, the floor division on a zero limit, and pydantic on a list whose
  elements are not messages.
\<close>

definition SearchResponse_of :: "string \<Rightarrow> pyval \<Rightarrow> int \<Rightarrow> int \<Rightarrow> exn + SearchResponse" where
  "SearchResponse_of query messages page limit =
     (case messages of
        PList xs \<Rightarrow>
          if limit = 0 then Inl ZeroDivisionError
          else (case collect message_model xs of
                  Inl e \<Rightarrow> Inl e
                | Inr ms \<Rightarrow>
                    Inr \<lparr>sr_query = query, sr_total_results = int (length xs), sr_messages = ms,
                         sr_page = page,
                         sr_total_pages = max 1 ((int (length xs) + limit - 1) div limit)\<rparr>)
      | PStr s \<Rightarrow> if limit = 0 then Inl ZeroDivisionError else Inl ValidationError
      | PStrOf m \<Rightarrow> if limit = 0 then Inl ZeroDivisionError else Inl ValidationError
      | PDict kvs \<Rightarrow> if limit = 0 then Inl ZeroDivisionError else Inl ValidationError
      | _ \<Rightarrow> Inl TypeError)"

definition route_search_messages ::
  "database \<Rightarrow> redis option \<Rightarrow> nat \<Rightarrow> string \<Rightarrow> string option \<Rightarrow> date option \<Rightarrow> date option
     \<Rightarrow> bool option \<Rightarrow> int option \<Rightarrow> int \<Rightarrow> int \<Rightarrow> (exn + SearchResponse) \<times> redis option" where
  "route_search_messages d redis_client now query channel_name start_date end_date has_images
       min_views page limit =
     (let data_service = DataService_init d redis_client
      in case search_messages data_service now query channel_name start_date end_date has_images
                min_views limit of
           (Inl e, S') \<Rightarrow> (except_exception (Inl e), redis S')
         | (Inr messages, S') \<Rightarrow>
             (except_exception (SearchResponse_of query messages page limit), redis S'))"

section \<open>Example data\<close>

definition example_redis :: redis where
  "example_redis = \<lparr>r_fails = False, r_store = [''k'' \<mapsto> (JsonText (PInt 7), 100)]\<rparr>"

definition empty_db :: database where
  "empty_db = \<lparr>db_fails = False, dim_channels = [], fct_messages = [], dim_dates = [],
     sql_channel_activity = (\<lambda>n d. []), sql_recent_messages = (\<lambda>d. []),
     sql_images_by_channel = [], sql_images_by_category = [], sql_top_objects = [],
     sql_avg_detections = None,
     sql_engagement_totals = (\<lambda>d. (None, None, None, None, None)),
     sql_top_messages = (\<lambda>d. []), sql_daily_trend = (\<lambda>m d. [])\<rparr>"

definition channel_A :: Channel where
  "channel_A = \<lparr>ch_channel_key = ''ka'', ch_channel_name = Some ''A'',
     ch_channel_type = Some ''Medical'', ch_first_post_date = None, ch_last_post_date = None,
     ch_total_posts = Some 10, ch_avg_views = Some 50, ch_image_percentage = Some 20,
     ch_activity_status = Some ''Active''\<rparr>"

definition channel_B :: Channel where
  "channel_B = \<lparr>ch_channel_key = ''kb'', ch_channel_name = Some ''B'',
     ch_channel_type = Some ''Cosmetics'', ch_first_post_date = None, ch_last_post_date = None,
     ch_total_posts = Some 0, ch_avg_views = Some 0, ch_image_percentage = Some 0,
     ch_activity_status = Some ''Inactive''\<rparr>"

definition response_A :: ChannelResponse where
  "response_A = \<lparr>cr_channel_name = ''A'', cr_channel_type = ''Medical'', cr_total_posts = 10,
     cr_avg_views = 50, cr_channel_key = ''ka'', cr_first_post_date = None,
     cr_last_post_date = None, cr_image_percentage = 20, cr_activity_status = ''Active''\<rparr>"

definition response_B :: ChannelResponse where
  "response_B = \<lparr>cr_channel_name = ''B'', cr_channel_type = ''Cosmetics'', cr_total_posts = 0,
     cr_avg_views = 0, cr_channel_key = ''kb'', cr_first_post_date = None,
     cr_last_post_date = None, cr_image_percentage = 0, cr_activity_status = ''Inactive''\<rparr>"

definition message_1 :: TelegramMessage where
  "message_1 = \<lparr>tm_message_key = ''m1'', tm_message_id = Some 1, tm_channel_key = Some ''ka'',
     tm_date_key = Some ''d1'', tm_message_text = Some ''Panadol in stock'',
     tm_message_length = Some 16, tm_view_count = None, tm_forward_count = Some 0,
     tm_has_image_flag = Some False, tm_engagement_score = Some 0, tm_loaded_at = Some 0\<rparr>"

definition example_db :: database where
  "example_db = empty_db\<lparr>dim_channels := [channel_A, channel_B], fct_messages := [message_1],
     dim_dates := [\<lparr>dd_date_key = ''d1'', dd_full_date = Some (Date 2024 1 15)\<rparr>],
     sql_recent_messages := (\<lambda>days. [(Some ''Paracetamol 500mg'', ''A'', Some 100),
                                       (Some ''cheap PARACETAMOL for pain'', ''B'', Some 200),
                                       (Some ''paracetamol syrup'', ''A'', Some 300)])\<rparr>"

definition working_redis :: redis where
  "working_redis = \<lparr>r_fails = False, r_store = Map.empty\<rparr>"



definition message_2 :: TelegramMessage where
  "message_2 = \<lparr>tm_message_key = ''m2'', tm_message_id = Some 2, tm_channel_key = Some ''ka'',
     tm_date_key = Some ''d1'', tm_message_text = Some ''Panadol in stock'',
     tm_message_length = Some 16, tm_view_count = Some 7, tm_forward_count = Some 0,
     tm_has_image_flag = Some False, tm_engagement_score = Some 0, tm_loaded_at = Some 0\<rparr>"

definition search_db :: database where
  "search_db = example_db\<lparr>fct_messages := [message_2]\<rparr>"

section \<open>Properties of the cache-aside layer\<close>

text \<open>
  C2. For every key and every state of the cache backend, \<open>get_cached\<close> returns the
  decoded value of an entry that is present and not expired, and returns \<open>PNone\<close>,
  never an exception, when there is no client, when the backend call fails, when there
  is no live entry or when decoding fails; \<open>set_cached\<close> of a service built by
  \<open>DataService_init\<close> stores the serialized value with an expiry 300 seconds ahead,
  and on any failure returns \<open>False\<close> and leaves the service as it was.
\<close>

theorem cache_get_set_fail_open:
  "(\<not> r_fails r \<and> r_store r key = Some (JsonText v, expires) \<and> now < expires
      \<longrightarrow> get_cached (DataService_init d (Some r)) now key = v)
   \<and> get_cached (DataService_init d None) now key = PNone
   \<and> (r_fails r \<longrightarrow> get_cached (DataService_init d (Some r)) now key = PNone)
   \<and> (r_store r key = None \<longrightarrow> get_cached (DataService_init d (Some r)) now key = PNone)
   \<and> (r_store r key = Some (data, expires) \<and> expires \<le> now
        \<longrightarrow> get_cached (DataService_init d (Some r)) now key = PNone)
   \<and> (r_store r key = Some (NotJson s, expires)
        \<longrightarrow> get_cached (DataService_init d (Some r)) now key = PNone)
   \<and> (\<not> r_fails r \<longrightarrow>
         set_cached (DataService_init d (Some r)) now key data' =
           (True, (DataService_init d (Some r))
              \<lparr>redis := Some (r\<lparr>r_store := (r_store r)(key \<mapsto> (json_dumps data', now + 300))\<rparr>)\<rparr>))
   \<and> (r_fails r \<longrightarrow>
         set_cached (DataService_init d (Some r)) now key data' = (False, DataService_init d (Some r)))
   \<and> set_cached (DataService_init d None) now key data' = (False, DataService_init d None)"
  by (simp add: DataService_init_def get_cached_def set_cached_def redis_get_def redis_setex_def)

theorem cache_get_set_fail_open_witness:
  "get_cached (DataService_init empty_db (Some example_redis)) 50 ''k'' = PInt 7
   \<and> get_cached (DataService_init empty_db (Some example_redis)) 100 ''k'' = PNone
   \<and> fst (set_cached (DataService_init empty_db (Some example_redis)) 50 ''k'' (PInt 1))"
  using cache_get_set_fail_open [of example_redis "''k''" "PInt 7" 100 50 empty_db "JsonText (PInt 7)" "[]" "PInt 1"]
    cache_get_set_fail_open [of example_redis "''k''" "PInt 7" 100 100 empty_db "JsonText (PInt 7)" "[]" "PInt 1"]
  by (simp add: example_redis_def)


section \<open>The daily-trends route\<close>

text \<open>
  C1. A request for daily trends with a metric outside \<open>messages\<close>, \<open>views\<close>,
  \<open>forwards\<close>, \<open>images\<close> should fail with status 400. The route raises the 400
  inside its \<^verbatim>\<open>try\<close>, and its only handler, \<^verbatim>\<open>except Exception\<close>, catches it and raises
  a 500 in its place: on \<open>metric = bogus\<close>, \<open>days = 30\<close> the status is 500.
\<close>

theorem daily_trends_bogus_metric_status:
  "get_daily_trends d ''bogus'' 30
     = Inl (HTTPException 500 (Str_of (HTTPException 400 (Detail ''Invalid metric''))))
   \<and> map_sum status_code id (get_daily_trends d ''bogus'' 30) = Inl 500"
  by (simp add: get_daily_trends_def except_exception_def)

section \<open>Top products: one mention per product and message\<close>

lemma scan_keywords_once:
  "scan_keywords product kws t c v st =
     (if \<exists>k\<in>set kws. py_in k t then record_mention product c v st else st)"
  by (induction kws) auto

lemma dict_get_set: "dict_get (dict_set d q x) p dflt = (if p = q then x else dict_get d p dflt)"
  by (induction d) auto

lemma counts_record_mention:
  "dict_get (product_counts (record_mention q c v st)) p 0 =
     (if p = q then dict_get (product_counts st) p 0 + 1 else dict_get (product_counts st) p 0)"
  by (simp add: record_mention_def Let_def dict_get_set)

lemma counts_scan_products:
  "distinct (map fst kws) \<Longrightarrow>
   dict_get (product_counts (scan_products kws t c v st)) p 0 =
     dict_get (product_counts st) p 0
       + (if \<exists>ks. (p, ks) \<in> set kws \<and> (\<exists>k\<in>set ks. py_in k t) then 1 else 0)"
proof (induction kws arbitrary: st)
  case Nil
  then show ?case by simp
next
  case (Cons a kws)
  obtain q ks where a: "a = (q, ks)" by (cases a)
  from Cons.prems have d: "distinct (map fst kws)" and nq: "q \<notin> fst ` set kws"
    by (auto simp: a)
  have nq': "\<And>ks'. (q, ks') \<notin> set kws" using nq by force
  show ?case
    using Cons.IH [OF d] nq' by (auto simp: a scan_keywords_once counts_record_mention)
qed

lemma distinct_products: "distinct (map fst product_keywords)"
  by (simp add: product_keywords_def)

text \<open>
  C3. In the top-products aggregation a message contributes at most one mention to a
  product, however many of the product's keywords occur in its text: the keyword loop
  records one mention as soon as a keyword is found and stops, and over the whole
  keyword map the count of a product grows by at most one per message.
\<close>

theorem one_mention_per_product_and_message:
  "scan_keywords product kws t c v st =
     (if \<exists>k\<in>set kws. py_in k t then record_mention product c v st else st)
   \<and> dict_get (product_counts (scan_keywords product kws t c v st)) product 0
       \<le> dict_get (product_counts st) product 0 + 1
   \<and> dict_get (product_counts (scan_products product_keywords t c v st)) product 0
       \<le> dict_get (product_counts st) product 0 + 1"
  by (simp add: scan_keywords_once counts_record_mention counts_scan_products [OF distinct_products])

theorem one_mention_per_product_and_message_witness:
  "py_in ''paracetamol'' ''panadol paracetamol'' \<and> py_in ''panadol'' ''panadol paracetamol''
   \<and> scan_keywords ''Paracetamol'' [''paracetamol'', ''panadol'', ''acetaminophen'']
         ''panadol paracetamol'' ''A'' 5 no_mentions
       = record_mention ''Paracetamol'' ''A'' 5 no_mentions
   \<and> dict_get (product_counts (scan_products product_keywords ''panadol paracetamol'' ''A'' 5
                  no_mentions)) ''Paracetamol'' 0 \<le> 1"
proof -
  have "py_in ''paracetamol'' ''panadol paracetamol'' \<and> py_in ''panadol'' ''panadol paracetamol''"
    by simp
  moreover have "dict_get (product_counts no_mentions) ''Paracetamol'' 0 = 0"
    by (simp add: no_mentions_def)
  ultimately show ?thesis
    using one_mention_per_product_and_message
      [of "''Paracetamol''" "[''paracetamol'', ''panadol'', ''acetaminophen'']"
          "''panadol paracetamol''" "''A''" 5 no_mentions]
    by simp
qed

section \<open>Channel comparison\<close>

lemma py_truediv_max: "py_truediv x (max y 1) = Inr (x / max y 1)"
  by (simp add: py_truediv_def max_def)

lemma py_truediv_max_int: "py_truediv x (of_int (max n 1)) = Inr (x / of_int (max n 1))"
  by (simp add: py_truediv_def max_def)

lemma ChannelResponse_of_A: "ChannelResponse_of channel_A = Inr response_A"
  by (simp add: ChannelResponse_of_def channel_A_def response_A_def)


lemma find_A: "find (\<lambda>c. ch_channel_name c = Some ''A'') (dim_channels example_db) = Some channel_A"
  by (simp add: example_db_def empty_db_def channel_A_def)


lemma example_db_ok: "\<not> db_fails example_db"
  by (simp add: example_db_def empty_db_def)





text \<open>
  The first lookup writes under the key of its own channel only: a second lookup of
  another channel misses if it missed before.
\<close>

lemma second_lookup_miss:
  "a \<noteq> b \<Longrightarrow> \<not> truthy (get_cached S now (''channel:'' @ b))
   \<Longrightarrow> \<not> truthy (get_cached (snd (get_channel_by_name S now a)) now (''channel:'' @ b))"
  by (auto simp: get_channel_by_name_def Let_def case_prod_unfold set_cached_def get_cached_def
      redis_get_def redis_setex_def split: sum.splits option.splits if_splits)











section \<open>Zero as a threshold\<close>

text \<open>
  C10. Passing 0 for a minimum threshold is the same as leaving it unset: the search
  query with \<open>min_views = 0\<close> is the query with no \<open>min_views\<close>, and the channel
  listing with \<open>min_posts = 0\<close> is the listing with no \<open>min_posts\<close>.
\<close>

theorem zero_threshold_is_unset:
  "search_query d q cn sd ed hi (Some 0) = search_query d q cn sd ed hi None
   \<and> route_get_all_channels d rc now ct (Some 0) ao = route_get_all_channels d rc now ct None ao"
  by (simp add: search_query_def route_get_all_channels_def split: prod.split sum.split)

theorem zero_threshold_is_unset_witness:
  "tm_view_count message_1 = None
   \<and> search_query example_db ''PaNadol'' None None None None (Some 0) = [message_1]"
proof -
  have "search_query example_db ''PaNadol'' None None None None None = [message_1]"
    by code_simp
  then show ?thesis
    using zero_threshold_is_unset [of example_db "''PaNadol''" None None None None]
    by (simp add: message_1_def)
qed

section \<open>Top products: the paracetamol example\<close>

lemma dict_get_absent: "\<not> dict_has d k \<Longrightarrow> dict_get d k dflt = dflt"
  by (induction d) auto

lemma set_dict_set: "set (dict_set d q x) \<subseteq> insert (q, x) (set d)"
  by (induction d) (auto split: if_splits)

lemma dict_get_mem: "dict_get d q dflt = dflt \<or> (q, dict_get d q dflt) \<in> set d"
  by (induction d) (auto split: if_splits)

lemma channels_record_mention_other:
  "q \<noteq> p \<Longrightarrow> dict_get (product_channels (record_mention q c v st)) p dflt
                 = dict_get (product_channels st) p dflt"
  by (simp add: record_mention_def Let_def dict_get_set)

lemma views_record_mention_other:
  "q \<noteq> p \<Longrightarrow> dict_get (product_views (record_mention q c v st)) p dflt
                 = dict_get (product_views st) p dflt"
  by (simp add: record_mention_def Let_def dict_get_set)

lemma channels_record_mention_same:
  "dict_get (product_channels (record_mention p c v st)) p dflt
     = set_add (dict_get (product_channels st) p []) c"
  by (simp add: record_mention_def Let_def dict_get_set dict_get_absent)

lemma views_record_mention_same:
  "dict_get (product_views (record_mention p c v st)) p dflt
     = dict_get (product_views st) p [] @ [v]"
  by (simp add: record_mention_def Let_def dict_get_set dict_get_absent)

lemma counts_list_record_mention:
  "product_counts (record_mention q c v st)
     = dict_set (product_counts st) q (dict_get (product_counts st) q 0 + 1)"
  by (simp add: record_mention_def Let_def)

lemma scan_products_others:
  assumes "distinct (map fst kws)" and "p \<notin> fst ` set kws"
    and "product_counts st = (p, m) # others"
    and "\<forall>x\<in>set others. snd x \<le> (if fst x \<in> fst ` set kws then n else n + 1)"
    and "0 \<le> n"
  shows "\<exists>others'. product_counts (scan_products kws t c v st) = (p, m) # others'
            \<and> (\<forall>x\<in>set others'. snd x \<le> n + 1)"
  using assms
proof (induction kws arbitrary: st others)
  case Nil
  then show ?case by auto
next
  case (Cons a kws)
  obtain q ks where a: "a = (q, ks)" by (cases a)
  from Cons.prems have d: "distinct (map fst kws)" and qn: "q \<notin> fst ` set kws" and qp: "q \<noteq> p"
    and pn: "p \<notin> fst ` set kws"
    by (auto simp: a)
  let ?st1 = "scan_keywords q ks t c v st"
  have "\<exists>others1. product_counts ?st1 = (p, m) # others1
          \<and> (\<forall>x\<in>set others1. snd x \<le> (if fst x \<in> fst ` set kws then n else n + 1))"
  proof (cases "\<exists>k\<in>set ks. py_in k t")
    case False
    then have "?st1 = st" by (simp add: scan_keywords_once)
    moreover have "\<forall>x\<in>set others. snd x \<le> (if fst x \<in> fst ` set kws then n else n + 1)"
      using Cons.prems(4) by (auto simp: a split: if_splits)
    ultimately show ?thesis using Cons.prems(3) by auto
  next
    case True
    then have s1: "?st1 = record_mention q c v st" by (simp add: scan_keywords_once)
    let ?x = "dict_get others q 0 + 1"
    have pc: "product_counts ?st1 = (p, m) # dict_set others q ?x"
      using qp by (simp add: s1 counts_list_record_mention Cons.prems(3))
    have bq: "dict_get others q 0 \<le> n"
      using dict_get_mem [of others q 0] Cons.prems(4,5) by (auto simp: a)
    have "\<forall>x\<in>set (dict_set others q ?x). snd x \<le> (if fst x \<in> fst ` set kws then n else n + 1)"
    proof
      fix x assume "x \<in> set (dict_set others q ?x)"
      then have "x = (q, ?x) \<or> x \<in> set others" using set_dict_set [of others q ?x] by auto
      then show "snd x \<le> (if fst x \<in> fst ` set kws then n else n + 1)"
      proof
        assume "x = (q, ?x)"
        then show ?thesis using bq qn by auto
      next
        assume "x \<in> set others"
        then show ?thesis using Cons.prems(4) by (auto simp: a split: if_splits)
      qed
    qed
    then show ?thesis using pc by blast
  qed
  then obtain others1 where o1: "product_counts ?st1 = (p, m) # others1"
    and b1: "\<forall>x\<in>set others1. snd x \<le> (if fst x \<in> fst ` set kws then n else n + 1)" by blast
  show ?case
    using Cons.IH [OF d pn o1 b1 Cons.prems(5)] by (simp add: a)
qed

lemma scan_products_keeps:
  assumes "p \<notin> fst ` set kws"
  shows "dict_get (product_channels (scan_products kws t c v st)) p dflt
           = dict_get (product_channels st) p dflt
       \<and> dict_get (product_views (scan_products kws t c v st)) p dflt'
           = dict_get (product_views st) p dflt'"
  using assms
proof (induction kws arbitrary: st)
  case Nil
  then show ?case by simp
next
  case (Cons a kws)
  obtain q ks where a: "a = (q, ks)" by (cases a)
  from Cons.prems have qp: "q \<noteq> p" and pn: "p \<notin> fst ` set kws" by (auto simp: a)
  show ?case
    using Cons.IH [OF pn, of "scan_keywords q ks t c v st"] qp
    by (simp add: a scan_keywords_once channels_record_mention_other views_record_mention_other)
qed


lemma row_step_gen:
  assumes kws: "kws = (p, ks) # rest" and d: "distinct (map fst rest)" and pn: "p \<notin> fst ` set rest"
    and hit: "\<exists>k\<in>set ks. py_in k t"
    and inv: "product_counts st = [] \<and> n = 0
              \<or> (\<exists>others. product_counts st = (p, n) # others \<and> (\<forall>x\<in>set others. snd x \<le> n))"
    and n0: "0 \<le> n"
  shows "(\<exists>others'. product_counts (scan_products kws t c v st) = (p, n + 1) # others'
            \<and> (\<forall>x\<in>set others'. snd x \<le> n + 1))
       \<and> dict_get (product_channels (scan_products kws t c v st)) p dflt
           = set_add (dict_get (product_channels st) p []) c
       \<and> dict_get (product_views (scan_products kws t c v st)) p dflt'
           = dict_get (product_views st) p [] @ [v]"
proof -
  let ?st1 = "record_mention p c v st"
  have e: "scan_products kws t c v st = scan_products rest t c v ?st1"
    using hit by (simp add: kws scan_keywords_once)
  obtain others where o: "product_counts ?st1 = (p, n + 1) # others"
    and b: "\<forall>x\<in>set others. snd x \<le> n"
    using inv by (auto simp: counts_list_record_mention)
  have b': "\<forall>x\<in>set others. snd x \<le> (if fst x \<in> fst ` set rest then n else n + 1)"
    using b by auto
  show ?thesis
    using scan_products_others [OF d pn o b' n0, of t c v]
      scan_products_keeps [OF pn, of t c v ?st1 dflt dflt']
    by (simp add: e channels_record_mention_same views_record_mention_same)
qed

lemma row_step:
  assumes "py_in ''paracetamol'' t"
    and "product_counts st = [] \<and> n = 0
         \<or> (\<exists>others. product_counts st = (''Paracetamol'', n) # others \<and> (\<forall>x\<in>set others. snd x \<le> n))"
    and "0 \<le> n"
  shows "(\<exists>others'. product_counts (scan_products product_keywords t c v st)
                       = (''Paracetamol'', n + 1) # others'
            \<and> (\<forall>x\<in>set others'. snd x \<le> n + 1))
       \<and> dict_get (product_channels (scan_products product_keywords t c v st)) ''Paracetamol'' dflt
           = set_add (dict_get (product_channels st) ''Paracetamol'' []) c
       \<and> dict_get (product_views (scan_products product_keywords t c v st)) ''Paracetamol'' dflt'
           = dict_get (product_views st) ''Paracetamol'' [] @ [v]"
proof (rule row_step_gen [where ks = "[''paracetamol'', ''panadol'', ''acetaminophen'']"
         and rest = "tl product_keywords"])
  show "product_keywords
          = (''Paracetamol'', [''paracetamol'', ''panadol'', ''acetaminophen'']) # tl product_keywords"
    by (simp add: product_keywords_def)
  show "distinct (map fst (tl product_keywords))" by (simp add: product_keywords_def)
  show "''Paracetamol'' \<notin> fst ` set (tl product_keywords)" by (simp add: product_keywords_def)
  show "\<exists>k\<in>set [''paracetamol'', ''panadol'', ''acetaminophen'']. py_in k t"
    using assms(1) by simp
qed (use assms in auto)

lemma sort_desc_head:
  assumes "\<forall>y\<in>set xs. f y \<le> f x"
  shows "sort_desc f (x # xs) = x # sort_desc f xs"
proof -
  have "insort_key (\<lambda>x. - f x) x ys = x # ys" if "\<forall>y\<in>set ys. f y \<le> f x" for ys
    using that by (cases ys) auto
  moreover have "\<forall>y\<in>set (sort_key (\<lambda>x. - f x) xs). f y \<le> f x" using assms by simp
  ultimately show ?thesis by (simp add: sort_desc_def)
qed

lemma str_int_1_30: "str_int 1 = ''1''" "str_int 30 = ''30''"
  by code_simp+

lemma startswith_lower: "startswith s k \<Longrightarrow> startswith (lower s) (lower k)"
  by (induction s k rule: startswith.induct) (auto simp: lower_def)

lemma py_in_lower: "py_in k t \<Longrightarrow> py_in (lower k) (lower t)"
proof (induction t)
  case Nil
  then show ?case by (simp add: lower_def)
next
  case (Cons c cs)
  then show ?case
    using startswith_lower [of "c # cs" k] by (auto simp: lower_def)
qed

lemma lower_paracetamol: "lower ''paracetamol'' = ''paracetamol''"
  by code_simp

text \<open>A text that contains the word as written also contains it once lower-cased.\<close>

lemma contains_paracetamol_lower: "py_in ''paracetamol'' t \<Longrightarrow> py_in ''paracetamol'' (lower t)"
  using py_in_lower [of "''paracetamol''" t] by (simp add: lower_paracetamol)

text \<open>
  C4. Given a row-set of exactly three messages whose text contains \<open>paracetamol\<close>
  (in any case of the letters: the scan lower-cases the text), with view counts 100,
  200, 300 and channels \<open>A\<close>, \<open>B\<close>, \<open>A\<close>, \<open>get_top_products\<close> with \<open>limit = 1\<close> and \<open>days = 30\<close> returns the single product
  \<open>Paracetamol\<close> with \<open>mention_count = 3\<close>, a channel list whose set is \<open>{A, B}\<close>
  and \<open>avg_views = 200\<close>, whatever else the texts contain. The rows are read from the
  warehouse: it is reachable and the cache holds no truthy entry under the key.
\<close>

theorem top_products_paracetamol_example:
  assumes ok: "\<not> db_fails (db S)"
    and rows: "sql_recent_messages (db S) 30
                 = [(Some t1, A, Some 100), (Some t2, B, Some 200), (Some t3, A, Some 300)]"
    and t1: "py_in ''paracetamol'' (lower t1)"
    and t2: "py_in ''paracetamol'' (lower t2)"
    and t3: "py_in ''paracetamol'' (lower t3)"
    and miss: "\<not> truthy (get_cached S now ''top_products:1:30d'')"
  shows "\<exists>chs. fst (get_top_products S now 1 30)
                  = Inr (PList [PModel (MTopProduct
                       \<lparr>tp_product_name = ''Paracetamol'', tp_mention_count = 3,
                        tp_channels = chs, tp_avg_views = 200\<rparr>)])
               \<and> set chs = {A, B}"
proof -
  let ?P = "''Paracetamol''"
  let ?st1 = "scan_products product_keywords (lower t1) A 100 no_mentions"
  let ?st2 = "scan_products product_keywords (lower t2) B 200 ?st1"
  let ?st3 = "scan_products product_keywords (lower t3) A 300 ?st2"
  have i0: "product_counts no_mentions = [] \<and> (0::int) = 0
            \<or> (\<exists>others. product_counts no_mentions = (?P, 0) # others \<and> (\<forall>x\<in>set others. snd x \<le> 0))"
    by (simp add: no_mentions_def)
  note s1 = row_step [OF t1 i0, of A 100 "[]" "[]", simplified]
  then obtain o1 where c1: "product_counts ?st1 = (?P, 1) # o1" and b1: "\<forall>x\<in>set o1. snd x \<le> 1"
    by auto
  have i1: "product_counts ?st1 = [] \<and> (1::int) = 0
            \<or> (\<exists>others. product_counts ?st1 = (?P, 1) # others \<and> (\<forall>x\<in>set others. snd x \<le> 1))"
    using c1 b1 by blast
  note s2 = row_step [OF t2 i1, of B 200 "[]" "[]", simplified]
  then obtain o2 where c2: "product_counts ?st2 = (?P, 2) # o2" and b2: "\<forall>x\<in>set o2. snd x \<le> 2"
    by auto
  have i2: "product_counts ?st2 = [] \<and> (2::int) = 0
            \<or> (\<exists>others. product_counts ?st2 = (?P, 2) # others \<and> (\<forall>x\<in>set others. snd x \<le> 2))"
    using c2 b2 by blast
  have s3: "(\<exists>others'. product_counts ?st3 = (?P, 3) # others' \<and> (\<forall>x\<in>set others'. snd x \<le> 3))
       \<and> dict_get (product_channels ?st3) ?P dflt = set_add (dict_get (product_channels ?st2) ?P []) A
       \<and> dict_get (product_views ?st3) ?P dflt' = dict_get (product_views ?st2) ?P [] @ [300]"
    for dflt dflt'
    using row_step [OF t3 i2, of A 300 dflt dflt'] by simp
  obtain o3 where c3: "product_counts ?st3 = (?P, 3) # o3" and b3: "\<forall>x\<in>set o3. snd x \<le> 3"
    using s3 [of "[]" "[]"] by auto
  have chs: "dict_get (product_channels ?st3) ?P [] = set_add (set_add (set_add [] A) B) A"
    using s1 s2 s3 [of "[]" "[]"] by (simp add: no_mentions_def)
  have vs: "dict_get (product_views ?st3) ?P dflt' = [100, 200, 300]" for dflt'
    using s1 s2 s3 [of "[]" dflt'] by (simp add: no_mentions_def)
  have sorted: "sort_desc snd (product_counts ?st3) = (?P, 3) # sort_desc snd o3"
    unfolding c3 using b3 by (intro sort_desc_head) auto
  have top: "top_products_of ?st3 1
               = [\<lparr>tp_product_name = ?P, tp_mention_count = 3,
                   tp_channels = set_add (set_add (set_add [] A) B) A, tp_avg_views = 200\<rparr>]"
    by (simp add: top_products_of_def sorted py_take_def TopProduct_of_def chs vs set_add_def)
  have "fst (get_top_products S now 1 30)
          = Inr (PList [PModel (MTopProduct
               \<lparr>tp_product_name = ?P, tp_mention_count = 3,
                tp_channels = set_add (set_add (set_add [] A) B) A, tp_avg_views = 200\<rparr>)])"
    using ok miss
    by (simp add: get_top_products_def str_int_1_30 Let_def session_query_def rows or_zero_def top
          case_prod_unfold)
  moreover have "set (set_add (set_add (set_add [] A) B) A) = {A, B}"
    by (auto simp: set_add_def)
  ultimately show ?thesis by blast
qed


theorem top_products_paracetamol_example_witness:
  "\<not> db_fails (db (DataService_init example_db None))
   \<and> sql_recent_messages (db (DataService_init example_db None)) 30
       = [(Some ''Paracetamol 500mg'', ''A'', Some 100),
          (Some ''cheap PARACETAMOL for pain'', ''B'', Some 200),
          (Some ''paracetamol syrup'', ''A'', Some 300)]
   \<and> py_in ''paracetamol'' (lower ''cheap PARACETAMOL for pain'')
   \<and> (\<exists>chs. fst (get_top_products (DataService_init example_db None) 0 1 30)
                = Inr (PList [PModel (MTopProduct
                     \<lparr>tp_product_name = ''Paracetamol'', tp_mention_count = 3,
                      tp_channels = chs, tp_avg_views = 200\<rparr>)])
             \<and> set chs = {''A'', ''B''})"
proof -
  have ok: "\<not> db_fails (db (DataService_init example_db None))"
    by (simp add: DataService_init_def example_db_ok)
  have rows: "sql_recent_messages (db (DataService_init example_db None)) 30
       = [(Some ''Paracetamol 500mg'', ''A'', Some 100),
          (Some ''cheap PARACETAMOL for pain'', ''B'', Some 200),
          (Some ''paracetamol syrup'', ''A'', Some 300)]"
    by (simp add: DataService_init_def example_db_def empty_db_def)
  have t1: "py_in ''paracetamol'' (lower ''Paracetamol 500mg'')" by code_simp
  have t2: "py_in ''paracetamol'' (lower ''cheap PARACETAMOL for pain'')" by code_simp
  have t3: "py_in ''paracetamol'' (lower ''paracetamol syrup'')" by code_simp
  have miss: "\<not> truthy (get_cached (DataService_init example_db None) 0 ''top_products:1:30d'')"
    by (simp add: get_cached_def DataService_init_def)
  show ?thesis
    using top_products_paracetamol_example [OF ok rows t1 t2 t3 miss] ok rows t2 by blast
qed

section \<open>Division in the channel comparison\<close>

lemma ChannelResponse_of_error: "ChannelResponse_of c = Inl e \<Longrightarrow> e = ValidationError"
  by (simp add: ChannelResponse_of_def split: if_splits)

lemma get_channel_by_name_error_fst:
  "fst (get_channel_by_name S now n) = Inl e \<Longrightarrow> e = DatabaseError \<or> e = ValidationError"
  by (auto simp: get_channel_by_name_def Let_def session_query_def case_prod_unfold
      dest: ChannelResponse_of_error split: if_splits sum.splits option.splits)

lemma get_channel_activity_error_fst:
  "fst (get_channel_activity S now n days) = Inl e \<Longrightarrow> e = DatabaseError \<or> e = ValidationError"
  using get_channel_by_name_error_fst [of S now n e]
  by (auto simp: get_channel_activity_def Let_def session_query_def case_prod_unfold
      split: if_splits sum.splits option.splits prod.splits)

lemma get_channel_by_name_error:
  "get_channel_by_name S now n = (Inl e, S') \<Longrightarrow> e = DatabaseError \<or> e = ValidationError"
  using get_channel_by_name_error_fst [of S now n e] by simp

lemma get_channel_activity_error:
  "get_channel_activity S now n days = (Inl e, S') \<Longrightarrow> e = DatabaseError \<or> e = ValidationError"
  using get_channel_activity_error_fst [of S now n days e] by simp

lemma comparison_metrics_total: "\<exists>m. comparison_metrics c1 c2 = Inr m"
  by (simp add: comparison_metrics_def py_truediv_max py_truediv_max_int)

lemma comparison_metrics_no_error: "comparison_metrics c1 c2 \<noteq> Inl x"
  using comparison_metrics_total [of c1 c2] by auto

lemma attr_channel_error: "attr_channel v = Inl x \<Longrightarrow> x = AttributeError"
  by (auto simp: attr_channel_def split: pyval.splits model.splits)

lemma compare_channel_error:
  "fst (compare_channel d rc now a b) = Inl e \<Longrightarrow>
     e = HTTPException 500 (Str_of DatabaseError) \<or> e = HTTPException 500 (Str_of ValidationError)
     \<or> e = HTTPException 500 (Str_of AttributeError) \<or> e = not_found a \<or> e = not_found b"
  by (auto simp: compare_channel_def Let_def except_http_then_exception_def
        comparison_metrics_no_error not_found_def
        dest!: attr_channel_error get_channel_by_name_error get_channel_activity_error
        split: prod.splits sum.splits if_splits)

text \<open>
  C6. The percentage differences of the channel comparison never divide by zero: the
  divisor is \<open>max denominator 1\<close>, on which the division succeeds whatever the total
  posts or the average views of the second channel are, zero included; the metrics
  are computed for every pair of channels, and no request to the route ends in a
  \<open>ZeroDivisionError\<close>.
\<close>

theorem compare_channel_never_divides_by_zero:
  "py_truediv x (of_int (max (cr_total_posts c2) 1)) = Inr (x / of_int (max (cr_total_posts c2) 1))
   \<and> py_truediv y (max (cr_avg_views c2) 1) = Inr (y / max (cr_avg_views c2) 1)
   \<and> (\<exists>m. comparison_metrics c1 c2 = Inr m)
   \<and> fst (compare_channel d rc now a b) \<noteq> Inl ZeroDivisionError
   \<and> fst (compare_channel d rc now a b) \<noteq> Inl (HTTPException 500 (Str_of ZeroDivisionError))"
  using compare_channel_error [of d rc now a b]
  by (auto simp: py_truediv_max py_truediv_max_int comparison_metrics_total not_found_def)

theorem compare_channel_never_divides_by_zero_witness:
  "cr_total_posts response_B = 0 \<and> cr_avg_views response_B = 0
   \<and> py_truediv 10 (of_int (max (cr_total_posts response_B) 1)) = Inr 10
   \<and> py_truediv 50 (max (cr_avg_views response_B) 1) = Inr 50
   \<and> fst (compare_channel example_db None 0 ''A'' ''B'')
        \<noteq> Inl (HTTPException 500 (Str_of ZeroDivisionError))"
  using compare_channel_never_divides_by_zero [of 10 response_B 50 response_A example_db None 0 "''A''" "''B''"]
  by (simp add: response_B_def)

section \<open>Message search\<close>

lemma joined_messages_subset: "(m, c, dd) \<in> set (joined_messages d) \<Longrightarrow> m \<in> set (fct_messages d)"
  by (auto simp: joined_messages_def split: if_splits)

lemma search_query_no_match:
  assumes "\<forall>m\<in>set (fct_messages d). \<not> text_matches q m"
  shows "search_query d q cn sd ed hi mv = []"
proof -
  have "filter (\<lambda>(m, c, dd). text_matches q m) (joined_messages d) = []"
    using assms by (auto simp: filter_empty_conv dest: joined_messages_subset)
  then show ?thesis
    by (simp add: search_query_def Let_def split: option.splits)
qed

lemma search_messages_no_match:
  assumes "\<not> db_fails (db S)" and "\<forall>m\<in>set (fct_messages (db S)). \<not> text_matches q m"
    and "0 \<le> limit"
    and "\<not> truthy (get_cached S now (search_key q cn sd ed hi mv limit))"
  shows "fst (search_messages S now q cn sd ed hi mv limit) = Inr (PList [])"
  using assms(1,3,4)
  by (simp add: search_messages_def Let_def search_query_no_match [OF assms(2)] execute_search_def
        order_by_desc_def sort_desc_def case_prod_unfold)

text \<open>
  With the warehouse reachable, a limit of at least 1 and no truthy cache entry under
  the key of the search, a query whose pattern \<^verbatim>\<open>%query%\<close> matches no stored text
  gives the empty response.
\<close>

lemma search_no_pattern_match_is_empty:
  assumes "\<not> db_fails d" and "\<forall>m\<in>set (fct_messages d). \<not> text_matches query m"
    and "1 \<le> limit"
    and "\<not> truthy (get_cached (DataService_init d rc) now (search_key query cn sd ed hi mv limit))"
  shows "fst (route_search_messages d rc now query cn sd ed hi mv page limit)
         = Inr \<lparr>sr_query = query, sr_total_results = 0, sr_messages = [], sr_page = page,
                sr_total_pages = 1\<rparr>"
proof -
  have db: "db (DataService_init d rc) = d" by (simp add: DataService_init_def)
  have "fst (search_messages (DataService_init d rc) now query cn sd ed hi mv limit) = Inr (PList [])"
    using assms by (intro search_messages_no_match) (simp_all add: db)
  then obtain S' where
    "search_messages (DataService_init d rc) now query cn sd ed hi mv limit = (Inr (PList []), S')"
    by (metis prod.collapse)
  moreover have "(limit - 1) div limit = 0" using assms(3) by simp
  ultimately show ?thesis
    using assms(3)
    by (simp add: route_search_messages_def SearchResponse_of_def except_exception_def)
qed

text \<open>
  A pattern without metacharacters matches exactly the texts that start with it, and
  \<^verbatim>\<open>%query%\<close> for such a query matches exactly the texts that contain the query.
\<close>

lemma like_match_any: "like_match ''%'' t"
  by (induction t) auto

lemma startswith_append: "startswith t p \<longleftrightarrow> (\<exists>t'. t = p @ t')"
  by (induction t p rule: startswith.induct) auto

lemma like_match_literal:
  "CHR ''%'' \<notin> set p \<Longrightarrow> CHR ''_'' \<notin> set p \<Longrightarrow> CHR 0x5C \<notin> set p
   \<Longrightarrow> like_match (p @ rest) t \<longleftrightarrow> (\<exists>t'. t = p @ t' \<and> like_match rest t')"
proof (induction p arbitrary: t)
  case Nil
  then show ?case by simp
next
  case (Cons c p)
  then show ?case by (cases t) auto
qed

lemma like_match_contains:
  assumes "CHR ''%'' \<notin> set p" "CHR ''_'' \<notin> set p" "CHR 0x5C \<notin> set p"
  shows "like_match (''%'' @ p @ ''%'') t \<longleftrightarrow> py_in p t"
proof (induction t)
  case Nil
  show ?case using like_match_literal [OF assms, of "''%''" "[]"] by auto
next
  case (Cons c cs)
  have "like_match (p @ ''%'') (c # cs) \<longleftrightarrow> startswith (c # cs) p"
    using like_match_literal [OF assms, of "''%''" "c # cs"]
    by (simp del: like_match.simps add: like_match_any startswith_append)
  then show ?case using Cons by simp
qed

lemma lower_char_plain:
  "lower_char c = CHR ''%'' \<longleftrightarrow> c = CHR ''%''"
  "lower_char c = CHR ''_'' \<longleftrightarrow> c = CHR ''_''"
  "lower_char c = CHR 0x5C \<longleftrightarrow> c = CHR 0x5C"
  by (auto simp: lower_char_def Let_def char_of_eq_iff take_bit_eq_mod)

lemma lower_plain:
  "CHR ''%'' \<in> set (lower q) \<longleftrightarrow> CHR ''%'' \<in> set q"
  "CHR ''_'' \<in> set (lower q) \<longleftrightarrow> CHR ''_'' \<in> set q"
  "CHR 0x5C \<in> set (lower q) \<longleftrightarrow> CHR 0x5C \<in> set q"
  unfolding lower_def set_map image_iff
  by (metis lower_char_plain(1), metis lower_char_plain(2), metis lower_char_plain(3))

text \<open>
  For a query without \<^verbatim>\<open>%\<close>, \<^verbatim>\<open>_\<close> and backslash the filter of the search is the
  case-insensitive substring test.
\<close>

lemma text_matches_plain_query:
  assumes "CHR ''%'' \<notin> set q" "CHR ''_'' \<notin> set q" "CHR 0x5C \<notin> set q"
  shows "text_matches q m
           \<longleftrightarrow> (case tm_message_text m of None \<Rightarrow> False | Some t \<Rightarrow> py_in (lower q) (lower t))"
proof -
  have l: "lower (CHR ''%'' # q @ ''%'') = CHR ''%'' # lower q @ ''%''"
    by (simp add: lower_def lower_char_plain)
  have "like_match (CHR ''%'' # lower q @ ''%'') t = py_in (lower q) t" for t
    using like_match_contains [of "lower q" t] assms by (simp add: lower_plain del: like_match.simps)
  then show ?thesis
    by (simp add: text_matches_def ilike_def l del: like_match.simps split: option.splits)
qed

lemma search_plain_query_without_match_is_empty:
  assumes "CHR ''%'' \<notin> set query" "CHR ''_'' \<notin> set query" "CHR 0x5C \<notin> set query"
    and "\<not> db_fails d"
    and "\<forall>m\<in>set (fct_messages d). \<forall>t. tm_message_text m = Some t \<longrightarrow> \<not> py_in (lower query) (lower t)"
    and "1 \<le> limit"
    and "\<not> truthy (get_cached (DataService_init d rc) now (search_key query cn sd ed hi mv limit))"
  shows "fst (route_search_messages d rc now query cn sd ed hi mv page limit)
         = Inr \<lparr>sr_query = query, sr_total_results = 0, sr_messages = [], sr_page = page,
                sr_total_pages = 1\<rparr>"
proof -
  have "\<forall>m\<in>set (fct_messages d). \<not> text_matches query m"
    using assms(5) by (auto simp: text_matches_plain_query [OF assms(1-3)] split: option.splits)
  then show ?thesis
    using assms(4,6,7) by (intro search_no_pattern_match_is_empty)
qed

text \<open>
  C7. A search whose query occurs in no stored message text should return an empty
  message list with \<open>total_results = 0\<close>. The search filters with \<^verbatim>\<open>ILIKE\<close> on the
  pattern \<^verbatim>\<open>%query%\<close> and does not escape the query, so \<^verbatim>\<open>_\<close> and \<^verbatim>\<open>%\<close> in it act
  as wildcards: on the query \<^verbatim>\<open>_\<close>, with default filters, a limit of 20 and an
  empty cache, no stored text contains the query (in any case of the letters), and the
  route returns the stored message with \<open>total_results = 1\<close>.
\<close>

theorem search_wildcard_query_returns_rows:
  "filter (\<lambda>m. case tm_message_text m of None \<Rightarrow> False
                 | Some t \<Rightarrow> py_in (lower ''_'') (lower t)) (fct_messages search_db) = []
   \<and> fst (route_search_messages search_db (Some working_redis) 0 ''_'' None None None None None 1 20)
       = Inr \<lparr>sr_query = ''_'', sr_total_results = 1,
              sr_messages = [\<lparr>mr_message_id = 2, mr_message_text = ''Panadol in stock'',
                 mr_message_date = 0, mr_channel_name = ''A'', mr_view_count = 7,
                 mr_forward_count = 0, mr_has_image = False, mr_message_length = 16,
                 mr_engagement_score = 0\<rparr>],
              sr_page = 1, sr_total_pages = 1\<rparr>"
  by code_simp

section \<open>Channel lookup through the cache\<close>

text \<open>
  C8. Channel lookup by name should return the same result on two consecutive calls.
  With a working cache client the first call for channel \<open>A\<close> returns the
  \<open>ChannelResponse\<close> object read from the warehouse and stores
  \<^verbatim>\<open>json.dumps(result, default=str)\<close>; the second call, one second later and with the
  warehouse unchanged, is served from the cache and returns the string \<^verbatim>\<open>str(result)\<close>.
\<close>

theorem channel_lookup_cached_result:
  "fst (get_channel_by_name (DataService_init example_db (Some working_redis)) 0 ''A'')
     = Inr (PModel (MChannelResponse response_A))
   \<and> fst (get_channel_by_name
            (snd (get_channel_by_name (DataService_init example_db (Some working_redis)) 0 ''A''))
            1 ''A'')
     = Inr (PStrOf (MChannelResponse response_A))"
  by (simp add: get_channel_by_name_def get_cached_def set_cached_def redis_get_def redis_setex_def
      DataService_init_def working_redis_def session_query_def find_A ChannelResponse_of_A
      json_dumps_def example_db_ok Let_def)

section \<open>Falsy cached values\<close>
















end
